theory Spec2Isabelle
  imports Complex_Main "HOL-Library.Sublist"
begin

section \<open>Python values used by both modules\<close>

text \<open>
  Exceptions are values.  \<open>NameError\<close> is what Python raises when a function body reads a
  name that neither the function nor its module binds; \<open>AttributeError\<close> is raised by
  attribute access on a feed entry that lacks the attribute; \<open>SourceFailure\<close> stands for
  whatever an external collaborator (HTTP client, archive reader, feed parser, store
  driver, the absent \<open>app.sources\<close> package) raises.
\<close>

datatype error =
    HTTPException nat string
  | NameError string
  | AttributeError string
  | SourceFailure string

text \<open>
  Scores are Python numbers.  They are modelled by their exact rational value: every finite
  float is a rational, comparisons against the integer thresholds are exact on it, and
  sums and quotients are taken without rounding.
\<close>

type_synonym number = rat

text \<open>\<open>int(x)\<close> truncates towards zero.\<close>

definition py_int :: "number \<Rightarrow> int" where
  "py_int x = (if 0 \<le> x then \<lfloor>x\<rfloor> else \<lceil>x\<rceil>)"

text \<open>\<open>round(x, 1)\<close>: the nearest multiple of one tenth, a tie going to the even digit.\<close>

definition round_half_even :: "number \<Rightarrow> int" where
  "round_half_even x =
     (let f = \<lfloor>x\<rfloor>; d = x - of_int f
      in if d < 1 / 2 then f else if 1 / 2 < d then f + 1 else if even f then f else f + 1)"

definition py_round1 :: "number \<Rightarrow> number" where
  "py_round1 x = of_int (round_half_even (x * 10)) / 10"

text \<open>\<open>str(n)\<close> of an integer, as the f-string of the handler formats it.\<close>

fun digits :: "nat \<Rightarrow> string" where
  "digits n = (if n < 10 then [char_of (48 + n)] else digits (n div 10) @ [char_of (48 + n mod 10)])"

declare digits.simps [simp del]

definition str_int :: "int \<Rightarrow> string" where
  "str_int i = (if i < 0 then CHR ''-'' # digits (nat (- i)) else digits (nat i))"

text \<open>\<open>s.lower()\<close> on ASCII text: the letters A to Z move to a to z, every other character stays.\<close>

definition lower_char :: "char \<Rightarrow> char" where
  "lower_char c =
     (let n = (of_char c :: nat) in if 65 \<le> n \<and> n \<le> 90 then char_of (n + 32) else c)"

definition lower :: "string \<Rightarrow> string" where
  "lower s = map lower_char s"

text \<open>\<open>k in s\<close> on strings: \<open>k\<close> occurs in \<open>s\<close> as a contiguous run.\<close>

definition str_in :: "string \<Rightarrow> string \<Rightarrow> bool" where
  "str_in k s = sublist k s"

section \<open>main.py: the forecast endpoint\<close>

record ForecastQuery =
  ports :: "string list"
  horizon_days :: int
  query_keywords :: "string list option"

record ForecastSignal =
  signal_source :: string
  signal_type :: string
  signal_value :: string
  impact :: number

record ForecastResult =
  port :: string
  country :: string
  disruption_risk_score :: number
  risk_level :: string
  predicted_delay_days :: "int option"
  confidence :: number
  contributing_signals :: "ForecastSignal list"
  recommendations :: "string list"

record ForecastResponse =
  forecasts :: "ForecastResult list"
  as_of :: string

text \<open>
  The dictionaries the two source calls return, by the keys the handler reads; a key the
  dictionary does not hold is \<open>None\<close>, and \<open>d.get(k, 0)\<close> reads it as 0.
\<close>

record congestion_dict =
  risk :: "number option"
  vessels_waiting :: "int option"

record gdelt_dict =
  gdelt_risk :: "number option"

definition get0 :: "'a::zero option \<Rightarrow> 'a" where
  "get0 v = (case v of None \<Rightarrow> 0 | Some x \<Rightarrow> x)"

text \<open>Line 49: the score of one port.\<close>

definition score :: "congestion_dict \<Rightarrow> gdelt_dict \<Rightarrow> number" where
  "score congestion gdelt_signals = get0 (risk congestion) + get0 (gdelt_risk gdelt_signals)"

text \<open>Line 50: the band of a score.\<close>

definition level :: "number \<Rightarrow> string" where
  "level s = (if 60 < s then ''High'' else if 30 < s then ''Medium'' else ''Low'')"

text \<open>Line 57: the delay estimate of a score.\<close>

definition delay_days :: "number \<Rightarrow> int option" where
  "delay_days s = (if 20 < s then Some (py_int (s / 5)) else None)"

text \<open>Lines 52 to 64: the result appended for one port.\<close>

definition port_result :: "string \<Rightarrow> congestion_dict \<Rightarrow> gdelt_dict \<Rightarrow> ForecastResult" where
  "port_result p congestion gdelt_signals =
     (let s = score congestion gdelt_signals in
      \<lparr> port = p,
        country = ''Unknown'',
        disruption_risk_score = py_round1 s,
        risk_level = level s,
        predicted_delay_days = delay_days s,
        confidence = 85 / 100,
        contributing_signals =
          [\<lparr> signal_source = ''MarineTraffic'', signal_type = ''Congestion'',
             signal_value = str_int (get0 (vessels_waiting congestion)) @ '' vessels'',
             impact = get0 (risk congestion) \<rparr>],
        recommendations =
          (if 50 < s then [''Reroute via alternative port'', ''Increase buffer stock'']
           else [''Monitor'']) \<rparr>)"

text \<open>
  The names main.py binds at module level: its imports, \<open>app\<close>, the three models and the
  handler.  Reading any other global name inside the handler raises \<open>NameError\<close>.
\<close>

definition main_globals :: "string list" where
  "main_globals =
     [''FastAPI'', ''Depends'', ''HTTPException'', ''Header'', ''BaseModel'', ''List'',
      ''Optional'', ''settings'', ''get_client'', ''get_port_congestion'', ''app'',
      ''ForecastQuery'', ''ForecastSignal'', ''ForecastResult'', ''forecast_disruption'']"

definition main_global :: "string \<Rightarrow> (error + 'a) \<Rightarrow> error + 'a" where
  "main_global n body = (if n \<in> set main_globals then body else Inl (NameError n))"

text \<open>
  The loop of lines 41 to 64.  The two source calls are the collaborators' behaviour,
  taken as parameters; an exception of either leaves the handler, which has no
  \<open>try\<close>.
\<close>

fun forecast_loop ::
  "(string \<Rightarrow> error + congestion_dict) \<Rightarrow> (string \<Rightarrow> string list \<Rightarrow> error + gdelt_dict) \<Rightarrow>
   string list \<Rightarrow> string list \<Rightarrow> ForecastResult list \<Rightarrow> error + ForecastResult list" where
  "forecast_loop gpc ggs kws [] results = Inr results"
| "forecast_loop gpc ggs kws (p # ps) results =
     (case main_global ''get_port_congestion'' (gpc p) of
        Inl e \<Rightarrow> Inl e
      | Inr congestion \<Rightarrow>
          (case main_global ''get_gdelt_signals'' (ggs p kws) of
             Inl e \<Rightarrow> Inl e
           | Inr gdelt_signals \<Rightarrow>
               forecast_loop gpc ggs kws ps (results @ [port_result p congestion gdelt_signals])))"

text \<open>
  The handler: \<open>api_key\<close> is \<open>settings.API_KEY\<close>, \<open>x_api_key\<close> the header (absent is
  \<open>None\<close>), \<open>utcnow\<close> what \<open>datetime.datetime.utcnow().isoformat()\<close> would give.
\<close>

definition forecast_disruption ::
  "string option \<Rightarrow> (string \<Rightarrow> error + congestion_dict) \<Rightarrow>
   (string \<Rightarrow> string list \<Rightarrow> error + gdelt_dict) \<Rightarrow> string \<Rightarrow>
   ForecastQuery \<Rightarrow> string option \<Rightarrow> error + ForecastResponse" where
  "forecast_disruption api_key gpc ggs utcnow query x_api_key =
     (if x_api_key \<noteq> api_key then Inl (HTTPException 401 ''Invalid API key'')
      else case forecast_loop gpc ggs (case query_keywords query of None \<Rightarrow> [] | Some ks \<Rightarrow> ks)
                  (ports query) [] of
             Inl e \<Rightarrow> Inl e
           | Inr results \<Rightarrow>
               (case main_global ''datetime'' (Inr utcnow) of
                  Inl e \<Rightarrow> Inl e
                | Inr t \<Rightarrow> Inr \<lparr> forecasts = results, as_of = t @ ''Z'' \<rparr>))"

section \<open>daily_refresh.py: the ingestion job\<close>

text \<open>
  A value as a frame cell or a dictionary holds it.  \<open>read_csv\<close> is called without
  \<open>dtype\<close>, so it decides the type of a column from the column's content: a column of
  digits only is read as integers, a numeric column with a missing cell as floats, and a
  column with a non-numeric token as text.  Values of different constructors are different values: the
  integer 14 is not the string \<open>'14'\<close>, in Python and for \<open>isin\<close> alike.
\<close>

datatype pyval = PyInt int | PyFloat number | PyStr string

text \<open>
  One row of the frame \<open>read_csv\<close> builds, by the eight column names the call gives.
  \<open>event_root\<close> is the cell of the code column, of whichever type the column was read
  as; \<open>goldstein\<close> is the number \<open>abs\<close> is applied to.
\<close>

record gdelt_row =
  event_id :: int
  sqldate :: int
  actor_country :: string
  event_root :: pyval
  goldstein :: number
  location :: string
  event_base :: string
  source_url :: string

text \<open>The dictionary both adapters build, one per signal.\<close>

record signal =
  source :: string
  port_name :: string
  signal_country :: string
  event_type :: pyval
  description :: string
  event_date :: string
  impact_score :: number
  raw_data :: string

text \<open>
  A feed entry: \<open>entry.title\<close> and \<open>entry.link\<close> raise when the entry has no such
  attribute, \<open>entry.get("summary")\<close> gives \<open>None\<close>.
\<close>

record entry =
  title :: "string option"
  summary :: "string option"
  link :: "string option"

text \<open>The logging calls of the module, one constructor per call site, with the values it formats.\<close>

datatype log_entry =
    TableReady
  | FetchingGdelt string
  | GdeltLoaded nat
  | GdeltFailed error
  | MarineTrafficExtracted string nat
  | MarineTrafficFailed string error
  | InsertedGdelt nat
  | InsertedMarineTraffic nat
  | AcledStub
  | RefreshComplete

text \<open>
  What lies outside the module: the store (\<open>get_client\<close> with \<open>create_table\<close>, and
  \<open>insert_dataframe\<close>, each of which may raise), the download of the export up to
  \<open>read_csv\<close> (an exception, or the rows of the frame), the feed parser, the clock, and the
  formatting of a float and of a JSON document.
\<close>

record externals =
  connect :: "error option"
  download :: "error + gdelt_row list"
  parse_rss :: "string \<Rightarrow> error + entry list"
  insert_dataframe :: "signal list \<Rightarrow> error option"
  yesterday :: string
  now :: string
  str_float :: "number \<Rightarrow> string"
  json_dumps :: "gdelt_row \<Rightarrow> string"

text \<open>The names daily_refresh.py binds at module level: its imports, constants and functions.\<close>

definition refresh_globals :: "string list" where
  "refresh_globals =
     [''datetime'', ''requests'', ''zipfile'', ''io'', ''logging'', ''pd'', ''Client'',
      ''parse_rss'', ''Dict'', ''List'', ''Any'', ''os'', ''load_dotenv'',
      ''CLICKHOUSE_HOST'', ''CLICKHOUSE_PORT'', ''CLICKHOUSE_USER'', ''CLICKHOUSE_PASSWORD'',
      ''CLICKHOUSE_DB'', ''CLICKHOUSE_SECURE'', ''get_client'', ''create_table'',
      ''fetch_gdelt_yesterday'', ''parse_marinetraffic_rss'', ''daily_refresh'']"

definition refresh_global :: "string \<Rightarrow> (error + 'a) \<Rightarrow> error + 'a" where
  "refresh_global n body = (if n \<in> set refresh_globals then body else Inl (NameError n))"

subsection \<open>fetch_gdelt_yesterday\<close>

text \<open>Line 87: \<open>isin(['14', '18'])\<close>, the membership of the cell in a list of two strings.\<close>

definition relevant :: "gdelt_row \<Rightarrow> bool" where
  "relevant r = (event_root r \<in> set [PyStr ''14'', PyStr ''18''])"

definition gdelt_url :: "string \<Rightarrow> string" where
  "gdelt_url y = ''http://data.gdeltproject.org/events/'' @ y @ ''.export.CSV.zip''"

text \<open>The records returned, and the lines logged.\<close>

definition fetch_gdelt_yesterday ::
  "string \<Rightarrow> (error + gdelt_row list) \<Rightarrow> gdelt_row list \<times> log_entry list" where
  "fetch_gdelt_yesterday y dl =
     (case dl of
        Inl e \<Rightarrow> ([], [FetchingGdelt (gdelt_url y), GdeltFailed e])
      | Inr df \<Rightarrow>
          (let records = filter relevant df
           in (records, [FetchingGdelt (gdelt_url y), GdeltLoaded (length records)])))"

subsection \<open>parse_marinetraffic_rss\<close>

definition feeds :: "string list" where
  "feeds = [''https://www.marinetraffic.com/ais/index/rss?port=SHANGHAI'',
            ''https://www.marinetraffic.com/ais/index/rss?port=LOSANGELES'']"

definition vocabulary :: "string list" where
  "vocabulary = [''congestion'', ''delay'', ''waiting'', ''anchorage'', ''queue'', ''strike'',
                 ''protest'', ''blockade'']"

text \<open>Line 116, on the lowered title and summary.\<close>

definition keyword_hit :: "string \<Rightarrow> string \<Rightarrow> bool" where
  "keyword_hit ttl smry = list_ex (\<lambda>k. str_in k ttl \<or> str_in k smry) vocabulary"

text \<open>Lines 117 to 121.\<close>

definition resolve_port :: "string \<Rightarrow> string" where
  "resolve_port url =
     (if str_in ''shanghai'' (lower url) then ''Shanghai''
      else if str_in ''los angeles'' (lower url) then ''Los Angeles''
      else ''Unknown'')"

definition or_empty :: "string option \<Rightarrow> string" where
  "or_empty v = (case v of None \<Rightarrow> [] | Some x \<Rightarrow> x)"

text \<open>Lines 124 to 133: the dictionary appended for an entry with title \<open>t\<close> and link \<open>l\<close>.\<close>

definition rss_signal :: "string \<Rightarrow> string \<Rightarrow> string \<Rightarrow> string option \<Rightarrow> string \<Rightarrow> signal" where
  "rss_signal url tm t sm l =
     \<lparr> source = ''MarineTraffic'',
       port_name = resolve_port url,
       signal_country = ''Unknown'',
       event_type = (if str_in ''congestion'' (lower t) then PyStr ''Congestion'' else PyStr ''Disruption''),
       description = t @ '' - '' @ or_empty sm,
       event_date = tm,
       impact_score = (if str_in ''congestion'' (lower t) then 25 else 15),
       raw_data = l \<rparr>"

text \<open>
  The inner loop over the entries of one feed.  An exception stops it and reaches the
  \<open>except\<close> of the feed; the signals appended before it stay in the list.
\<close>

fun entry_loop :: "string \<Rightarrow> string \<Rightarrow> entry list \<Rightarrow> signal list \<Rightarrow> error option \<times> signal list" where
  "entry_loop url tm [] signals = (None, signals)"
| "entry_loop url tm (e # es) signals =
     (case title e of
        None \<Rightarrow> (Some (AttributeError ''title''), signals)
      | Some t \<Rightarrow>
          if keyword_hit (lower t) (lower (or_empty (summary e))) then
            (case link e of
               None \<Rightarrow> (Some (AttributeError ''link''), signals)
             | Some l \<Rightarrow> entry_loop url tm es (signals @ [rss_signal url tm t (summary e) l]))
          else entry_loop url tm es signals)"

text \<open>The outer loop over the feed addresses, carrying the signals and the log.\<close>

fun feed_loop ::
  "(string \<Rightarrow> error + entry list) \<Rightarrow> string \<Rightarrow> string list \<Rightarrow> signal list \<Rightarrow> log_entry list \<Rightarrow>
   signal list \<times> log_entry list" where
  "feed_loop rss tm [] signals lg = (signals, lg)"
| "feed_loop rss tm (url # urls) signals lg =
     (case rss url of
        Inl e \<Rightarrow> feed_loop rss tm urls signals (lg @ [MarineTrafficFailed url e])
      | Inr es \<Rightarrow>
          (case entry_loop url tm (take 20 es) signals of
             (Some e, signals') \<Rightarrow> feed_loop rss tm urls signals' (lg @ [MarineTrafficFailed url e])
           | (None, signals') \<Rightarrow>
               feed_loop rss tm urls signals' (lg @ [MarineTrafficExtracted url (length signals')])))"

definition parse_marinetraffic_rss ::
  "(string \<Rightarrow> error + entry list) \<Rightarrow> string \<Rightarrow> signal list \<times> log_entry list" where
  "parse_marinetraffic_rss rss tm = feed_loop rss tm feeds [] []"

subsection \<open>daily_refresh\<close>

text \<open>Lines 151 to 160: the dictionary of one record, given the text for \<open>raw_data\<close>.\<close>

definition gdelt_signal :: "(number \<Rightarrow> string) \<Rightarrow> gdelt_row \<Rightarrow> string \<Rightarrow> signal" where
  "gdelt_signal fmt r raw =
     \<lparr> source = ''GDELT'',
       port_name = location r,
       signal_country = actor_country r,
       event_type = event_root r,
       description = ''Event ID '' @ str_int (event_id r) @ '', Goldstein '' @ fmt (goldstein r),
       event_date = str_int (sqldate r),
       impact_score = \<bar>goldstein r\<bar> * 5,
       raw_data = raw \<rparr>"

text \<open>
  The mapping loop of lines 150 to 160.  The last item of the dictionary reads the global
  name \<open>json\<close>.
\<close>

fun map_records ::
  "(number \<Rightarrow> string) \<Rightarrow> (gdelt_row \<Rightarrow> string) \<Rightarrow> gdelt_row list \<Rightarrow> signal list \<Rightarrow> error + signal list" where
  "map_records fmt dumps [] mapped = Inr mapped"
| "map_records fmt dumps (r # rs) mapped =
     (case refresh_global ''json'' (Inr (dumps r)) of
        Inl e \<Rightarrow> Inl e
      | Inr raw \<Rightarrow> map_records fmt dumps rs (mapped @ [gdelt_signal fmt r raw]))"

record job_state =
  store :: "signal list"
  logged :: "log_entry list"

text \<open>Step 1 of the job: the GDELT records, mapped and inserted.\<close>

definition gdelt_step :: "externals \<Rightarrow> job_state \<Rightarrow> error + job_state" where
  "gdelt_step ext st =
     (case fetch_gdelt_yesterday (yesterday ext) (download ext) of
        (gdelt_records, lg) \<Rightarrow>
          (let st1 = st\<lparr> logged := logged st @ lg \<rparr> in
           if gdelt_records = [] then Inr st1
           else case map_records (str_float ext) (json_dumps ext) gdelt_records [] of
                  Inl e \<Rightarrow> Inl e
                | Inr mapped \<Rightarrow>
                    (case insert_dataframe ext mapped of
                       Some e \<Rightarrow> Inl e
                     | None \<Rightarrow>
                         Inr (st1\<lparr> store := store st1 @ mapped,
                                  logged := logged st1 @ [InsertedGdelt (length mapped)] \<rparr>))))"

text \<open>Step 2 of the job: the MarineTraffic signals, inserted.\<close>

definition marinetraffic_step :: "externals \<Rightarrow> job_state \<Rightarrow> error + job_state" where
  "marinetraffic_step ext st =
     (case parse_marinetraffic_rss (parse_rss ext) (now ext) of
        (mt_signals, lg) \<Rightarrow>
          (let st1 = st\<lparr> logged := logged st @ lg \<rparr> in
           if mt_signals = [] then Inr st1
           else case insert_dataframe ext mt_signals of
                  Some e \<Rightarrow> Inl e
                | None \<Rightarrow>
                    Inr (st1\<lparr> store := store st1 @ mt_signals,
                             logged := logged st1 @ [InsertedMarineTraffic (length mt_signals)] \<rparr>)))"

text \<open>The job, from the rows the store holds before it runs.\<close>

definition daily_refresh :: "externals \<Rightarrow> signal list \<Rightarrow> error + job_state" where
  "daily_refresh ext rows =
     (case connect ext of
        Some e \<Rightarrow> Inl e
      | None \<Rightarrow>
          (case gdelt_step ext \<lparr> store = rows, logged = [TableReady] \<rparr> of
             Inl e \<Rightarrow> Inl e
           | Inr st1 \<Rightarrow>
               (case marinetraffic_step ext st1 of
                  Inl e \<Rightarrow> Inl e
                | Inr st2 \<Rightarrow> Inr (st2\<lparr> logged := logged st2 @ [AcledStub, RefreshComplete] \<rparr>))))"

section \<open>Properties of the forecast endpoint\<close>

lemma main_global_unbound_gdelt:
  "main_global ''get_gdelt_signals'' b = Inl (NameError ''get_gdelt_signals'')"
  by (simp add: main_global_def main_globals_def)

lemma main_global_unbound_datetime:
  "main_global ''datetime'' b = Inl (NameError ''datetime'')"
  by (simp add: main_global_def main_globals_def)

lemma main_global_bound_congestion: "main_global ''get_port_congestion'' b = b"
  by (simp add: main_global_def main_globals_def)

lemma forecast_loop_raises:
  "ps \<noteq> [] \<Longrightarrow> \<exists>e. forecast_loop gpc ggs kws ps results = Inl e"
  by (cases ps) (auto simp: main_global_unbound_gdelt split: sum.splits)

text \<open>
  Claim C1.  The claim asks that an authorized request gets one result per requested port
  and never an error.  The handler as written cannot return: for a request with at least
  one port the loop body reads \<open>get_gdelt_signals\<close>, which the module neither defines nor
  imports, and for a request without ports the \<open>return\<close> reads \<open>datetime\<close>, which the
  module does not import either.  So every authorized request ends in an exception, and
  the request for \<open>["Shanghai"]\<close>, with a congestion source that answers, ends in
  \<open>NameError\<close> for \<open>get_gdelt_signals\<close>.
\<close>

theorem forecast_disruption_always_raises:
  "(\<exists>e. forecast_disruption k gpc ggs utcnow q k = Inl e) \<and>
   forecast_disruption k (\<lambda>p. Inr \<lparr> risk = None, vessels_waiting = None \<rparr>) ggs utcnow
      \<lparr> ports = [''Shanghai''], horizon_days = 30, query_keywords = None \<rparr> k
     = Inl (NameError ''get_gdelt_signals'')"
proof
  show "\<exists>e. forecast_disruption k gpc ggs utcnow q k = Inl e"
  proof (cases "ports q")
    case Nil
    then show ?thesis by (simp add: forecast_disruption_def main_global_unbound_datetime)
  next
    case (Cons p ps)
    then have "ports q \<noteq> []" by simp
    from forecast_loop_raises [OF this] obtain e where
      "forecast_loop gpc ggs (case query_keywords q of None \<Rightarrow> [] | Some ks \<Rightarrow> ks) (ports q) [] = Inl e"
      by blast
    then show ?thesis by (simp add: forecast_disruption_def)
  qed
next
  show "forecast_disruption k (\<lambda>p. Inr \<lparr> risk = None, vessels_waiting = None \<rparr>) ggs utcnow
      \<lparr> ports = [''Shanghai''], horizon_days = 30, query_keywords = None \<rparr> k
     = Inl (NameError ''get_gdelt_signals'')"
    by (simp add: forecast_disruption_def main_global_unbound_gdelt main_global_bound_congestion)
qed

text \<open>
  Claim C3, as the code has it.  When both sources contribute risk 0 (the key absent, or
  present with 0), the result built for the port has score 0, level "Low", no delay and
  confidence 0.85; its \<open>contributing_signals\<close> is not empty but holds the one
  MarineTraffic entry the handler always lists, with the vessel count (0 when absent) as
  its value and impact 0.
\<close>

theorem empty_signal_result:
  "get0 (risk c) = 0 \<Longrightarrow> get0 (gdelt_risk g) = 0 \<Longrightarrow>
   disruption_risk_score (port_result p c g) = 0 \<and> risk_level (port_result p c g) = ''Low'' \<and>
   predicted_delay_days (port_result p c g) = None \<and> confidence (port_result p c g) = 85 / 100 \<and>
   contributing_signals (port_result p c g) =
     [\<lparr> signal_source = ''MarineTraffic'', signal_type = ''Congestion'',
        signal_value = str_int (get0 (vessels_waiting c)) @ '' vessels'', impact = 0 \<rparr>]"
  by (simp add: port_result_def Let_def score_def level_def delay_days_def py_round1_def
      round_half_even_def)

theorem empty_signal_result_witness:
  "get0 (risk \<lparr> risk = None, vessels_waiting = None \<rparr>) = 0 \<and>
   get0 (gdelt_risk \<lparr> gdelt_risk = None \<rparr>) = 0 \<and>
   risk_level (port_result ''Shanghai'' \<lparr> risk = None, vessels_waiting = None \<rparr> \<lparr> gdelt_risk = None \<rparr>)
     = ''Low'' \<and>
   contributing_signals
     (port_result ''Shanghai'' \<lparr> risk = None, vessels_waiting = None \<rparr> \<lparr> gdelt_risk = None \<rparr>)
     = [\<lparr> signal_source = ''MarineTraffic'', signal_type = ''Congestion'',
         signal_value = ''0 vessels'', impact = 0 \<rparr>]"
proof -
  have a: "get0 (risk \<lparr> risk = None, vessels_waiting = None \<rparr>) = 0"
    by (simp add: get0_def)
  have b: "get0 (gdelt_risk \<lparr> gdelt_risk = None \<rparr>) = 0"
    by (simp add: get0_def)
  have d: "str_int (get0 (vessels_waiting \<lparr> risk = None, vessels_waiting = None \<rparr>)) = ''0''"
    by code_simp
  show ?thesis
    using empty_signal_result [OF a b, of "''Shanghai''"] a b d by simp
qed

text \<open>
  Claim C3, as stated, asks for an empty \<open>contributing_signals\<close>; for a port whose two
  dictionaries are empty the sequence has an element.
\<close>

theorem empty_signal_contributing_not_empty:
  "contributing_signals
     (port_result ''Shanghai'' \<lparr> risk = None, vessels_waiting = None \<rparr> \<lparr> gdelt_risk = None \<rparr>) \<noteq> []"
  by (simp add: port_result_def Let_def)

text \<open>
  Claim C4.  The level of the result built from a score is "High" exactly when the score
  exceeds 60, "Medium" exactly when it exceeds 30 and does not exceed 60, and "Low" exactly
  when it does not exceed 30; 60 gives "Medium", 30 gives "Low", 60.1 gives "High" and
  30.1 gives "Medium".
\<close>

theorem risk_level_bands:
  "(risk_level (port_result p c g) = ''High'' \<longleftrightarrow> 60 < score c g) \<and>
   (risk_level (port_result p c g) = ''Medium'' \<longleftrightarrow> 30 < score c g \<and> score c g \<le> 60) \<and>
   (risk_level (port_result p c g) = ''Low'' \<longleftrightarrow> score c g \<le> 30) \<and>
   level 60 = ''Medium'' \<and> level 30 = ''Low'' \<and>
   level (601 / 10) = ''High'' \<and> level (301 / 10) = ''Medium''"
  by (simp add: port_result_def Let_def level_def)

text \<open>
  Claim C5.  The delay of the result built from a score is present exactly when the score
  exceeds 20, and is then the floor of a fifth of the score; at 20 it is absent and at
  20.1 it is 4.
\<close>

theorem predicted_delay_presence:
  "(predicted_delay_days (port_result p c g) \<noteq> None \<longleftrightarrow> 20 < score c g) \<and>
   predicted_delay_days (port_result p c g)
     = (if 20 < score c g then Some \<lfloor>score c g / 5\<rfloor> else None) \<and>
   delay_days 20 = None \<and> delay_days (201 / 10) = Some 4"
proof -
  have a: "delay_days (201 / 10) = Some 4" by code_simp
  have b: "delay_days 20 = None" by (simp add: delay_days_def)
  have d: "predicted_delay_days (port_result p c g) = delay_days (score c g)"
    by (simp add: port_result_def Let_def)
  show ?thesis using a b by (simp add: d delay_days_def py_int_def)
qed

section \<open>Properties of the ingestion job\<close>

lemma refresh_global_unbound_json: "refresh_global ''json'' b = Inl (NameError ''json'')"
  by (simp add: refresh_global_def refresh_globals_def)

lemma map_records_raises:
  "rs \<noteq> [] \<Longrightarrow> map_records fmt dumps rs mapped = Inl (NameError ''json'')"
  by (cases rs) (simp_all add: refresh_global_unbound_json)

lemma daily_refresh_raises:
  assumes "connect ext = None" and "download ext = Inr df" and "r \<in> set df" and "relevant r"
  shows "daily_refresh ext rows = Inl (NameError ''json'')"
proof -
  from assms(3,4) have "filter relevant df \<noteq> []"
    by (auto simp: filter_empty_conv)
  with assms(1,2) show ?thesis
    by (simp add: daily_refresh_def gdelt_step_def fetch_gdelt_yesterday_def Let_def
        map_records_raises)
qed

text \<open>
  Claim C2.  The claim asks that the job never raises past its own boundary.  The errors of
  the download and of each feed are caught (\<open>fetch_gdelt_yesterday\<close> and
  \<open>feed_loop\<close> return in every case), but the mapping loop of \<open>daily_refresh\<close> itself
  reads \<open>json\<close>, which the module does not import, outside any \<open>try\<close>.  With a store
  that answers, feeds that answer and an export of one Protest row, the job ends in
  \<open>NameError\<close> before anything is inserted or counted.
\<close>

theorem daily_refresh_name_error:
  "daily_refresh
     \<lparr> connect = None,
       download = Inr [\<lparr> event_id = 1, sqldate = 20240101, actor_country = ''USA'', event_root = PyStr ''14'', goldstein = - 5, location = ''Los Angeles'', event_base = ''141'', source_url = ''http://example.org/a'' \<rparr>],
       parse_rss = (\<lambda>url. Inr []),
       insert_dataframe = (\<lambda>batch. None),
       yesterday = y, now = tm, str_float = fmt, json_dumps = dumps \<rparr> rows
   = Inl (NameError ''json'')"
proof -
  let ?r = "\<lparr> event_id = 1, sqldate = 20240101, actor_country = ''USA'', event_root = PyStr ''14'', goldstein = - 5, location = ''Los Angeles'', event_base = ''141'', source_url = ''http://example.org/a'' \<rparr>"
  have "?r \<in> set [?r]" and "relevant ?r"
    by (simp_all add: relevant_def)
  then show ?thesis
    by (intro daily_refresh_raises [where df = "[?r]" and r = ?r]) simp_all
qed

text \<open>
  Claim C6.  The claim asks that every row with code 14 or 18 is retained and every other
  row excluded.  The adapter returns, in the order of the frame, exactly the rows whose
  code cell is the string \<open>'14'\<close> or the string \<open>'18'\<close>.  So every row with another
  code is excluded, but so is a row whose code is the integer 14: from an export whose code
  column holds digits only, which \<open>read_csv\<close> reads as integers, the Protest row is
  dropped and the adapter returns nothing.
\<close>

theorem fetch_gdelt_drops_integer_codes:
  "fst (fetch_gdelt_yesterday y (Inr df))
     = filter (\<lambda>r. event_root r = PyStr ''14'' \<or> event_root r = PyStr ''18'') df \<and>
   fst (fetch_gdelt_yesterday y
          (Inr [\<lparr> event_id = 1, sqldate = 20240101, actor_country = ''USA'', event_root = PyInt 14, goldstein = - 5, location = ''Los Angeles'', event_base = ''141'', source_url = ''http://example.org/a'' \<rparr>,
                \<lparr> event_id = 2, sqldate = 20240101, actor_country = ''USA'', event_root = PyInt 18, goldstein = - 5, location = ''Los Angeles'', event_base = ''141'', source_url = ''http://example.org/a'' \<rparr>])) = []"
  by (simp add: fetch_gdelt_yesterday_def Let_def relevant_def [abs_def])

text \<open>
  Claim C7.  The dictionary built for a GDELT record has the absolute value of the
  record's Goldstein score times 5 as its \<open>impact_score\<close>; it is never negative, and at
  most 50 when the Goldstein score lies between -10 and 10.
\<close>

theorem gdelt_impact_score:
  "impact_score (gdelt_signal fmt r raw) = \<bar>goldstein r\<bar> * 5 \<and>
   0 \<le> impact_score (gdelt_signal fmt r raw) \<and>
   (- 10 \<le> goldstein r \<and> goldstein r \<le> 10 \<longrightarrow> impact_score (gdelt_signal fmt r raw) \<le> 50)"
  by (simp add: gdelt_signal_def abs_le_iff)

theorem gdelt_impact_score_witness:
  "- 10 \<le> goldstein \<lparr> event_id = 1, sqldate = 20240101, actor_country = ''USA'', event_root = PyStr ''14'', goldstein = - 5, location = ''Los Angeles'', event_base = ''141'', source_url = ''http://example.org/a'' \<rparr> \<and>
   goldstein \<lparr> event_id = 1, sqldate = 20240101, actor_country = ''USA'', event_root = PyStr ''14'', goldstein = - 5, location = ''Los Angeles'', event_base = ''141'', source_url = ''http://example.org/a'' \<rparr> \<le> 10 \<and>
   impact_score (gdelt_signal (\<lambda>x. ''-5.0'') \<lparr> event_id = 1, sqldate = 20240101, actor_country = ''USA'', event_root = PyStr ''14'', goldstein = - 5, location = ''Los Angeles'', event_base = ''141'', source_url = ''http://example.org/a'' \<rparr> ''{}'') = 25 \<and>
   impact_score (gdelt_signal (\<lambda>x. ''-5.0'') \<lparr> event_id = 1, sqldate = 20240101, actor_country = ''USA'', event_root = PyStr ''14'', goldstein = - 5, location = ''Los Angeles'', event_base = ''141'', source_url = ''http://example.org/a'' \<rparr> ''{}'') \<le> 50"
  using gdelt_impact_score [of "\<lambda>x. ''-5.0''" "\<lparr> event_id = 1, sqldate = 20240101, actor_country = ''USA'', event_root = PyStr ''14'', goldstein = - 5, location = ''Los Angeles'', event_base = ''141'', source_url = ''http://example.org/a'' \<rparr>" "''{}''"]
  by simp

lemma entry_loop_invariant:
  assumes "\<And>x. x \<in> set signals \<Longrightarrow> P x"
    and "\<And>e t l. e \<in> set es \<Longrightarrow> title e = Some t \<Longrightarrow> link e = Some l \<Longrightarrow>
           keyword_hit (lower t) (lower (or_empty (summary e))) \<Longrightarrow>
           P (rss_signal url tm t (summary e) l)"
    and "s \<in> set (snd (entry_loop url tm es signals))"
  shows "P s"
  using assms
proof (induction es arbitrary: signals)
  case Nil
  then show ?case by simp
next
  case (Cons e es)
  show ?case
  proof (cases "title e")
    case None
    with Cons.prems show ?thesis by simp
  next
    case (Some t)
    note ttl = this
    show ?thesis
    proof (cases "keyword_hit (lower t) (lower (or_empty (summary e)))")
      case False
      with ttl Cons.prems(3) have "s \<in> set (snd (entry_loop url tm es signals))" by simp
      with Cons.IH [of signals] Cons.prems(1,2) show ?thesis by simp
    next
      case True
      show ?thesis
      proof (cases "link e")
        case None
        with ttl True Cons.prems show ?thesis by simp
      next
        case (Some l)
        let ?new = "rss_signal url tm t (summary e) l"
        from Some ttl True Cons.prems(3)
        have mem: "s \<in> set (snd (entry_loop url tm es (signals @ [?new])))" by simp
        have "P ?new" using Cons.prems(2) [of e t l] ttl Some True by simp
        then have "\<And>x. x \<in> set (signals @ [?new]) \<Longrightarrow> P x"
          using Cons.prems(1) by auto
        with Cons.IH [of "signals @ [?new]"] Cons.prems(2) mem show ?thesis by simp
      qed
    qed
  qed
qed

lemma feed_loop_invariant:
  assumes "\<And>x. x \<in> set signals \<Longrightarrow> P x"
    and "\<And>url es e t l. url \<in> set urls \<Longrightarrow> rss url = Inr es \<Longrightarrow> e \<in> set (take 20 es) \<Longrightarrow>
           title e = Some t \<Longrightarrow> link e = Some l \<Longrightarrow>
           keyword_hit (lower t) (lower (or_empty (summary e))) \<Longrightarrow>
           P (rss_signal url tm t (summary e) l)"
    and "s \<in> set (fst (feed_loop rss tm urls signals lg))"
  shows "P s"
  using assms
proof (induction urls arbitrary: signals lg)
  case Nil
  then show ?case by simp
next
  case (Cons url urls)
  show ?case
  proof (cases "rss url")
    case (Inl err)
    with Cons.prems(3)
    have "s \<in> set (fst (feed_loop rss tm urls signals (lg @ [MarineTrafficFailed url err])))"
      by simp
    with Cons.IH [of signals] Cons.prems(1,2) show ?thesis by simp
  next
    case (Inr es)
    obtain res signals' where el: "entry_loop url tm (take 20 es) signals = (res, signals')"
      by (cases "entry_loop url tm (take 20 es) signals")
    with Inr Cons.prems(3) obtain lg' where mem: "s \<in> set (fst (feed_loop rss tm urls signals' lg'))"
      by (cases res) auto
    have "\<And>x. x \<in> set signals' \<Longrightarrow> P x"
    proof -
      fix x assume "x \<in> set signals'"
      then have "x \<in> set (snd (entry_loop url tm (take 20 es) signals))" using el by simp
      then show "P x"
        using Cons.prems(1) Cons.prems(2) [of url es] Inr
        by (rule_tac entry_loop_invariant [of signals P "take 20 es" url tm x]) simp_all
    qed
    with Cons.IH [of signals'] Cons.prems(2) mem show ?thesis by simp
  qed
qed

lemma entry0_hit: "keyword_hit (lower ''Port Congestion rising'') (lower (or_empty None))"
  by code_simp

lemma entry1_hit: "keyword_hit (lower ''Dockers on STRIKE'') (lower (or_empty (Some ''Terminal closed'')))"
  by code_simp

lemma resolve_port_shanghai: "resolve_port ''https://www.marinetraffic.com/ais/index/rss?port=SHANGHAI'' = ''Shanghai''"
  by code_simp

lemma resolve_port_losangeles: "resolve_port ''https://www.marinetraffic.com/ais/index/rss?port=LOSANGELES'' = ''Unknown''"
  by code_simp

lemma parse_emits:
  assumes "s \<in> set (fst (parse_marinetraffic_rss rss tm))"
  shows "\<exists>url es e t l. url \<in> set feeds \<and> rss url = Inr es \<and> e \<in> set (take 20 es) \<and>
      title e = Some t \<and> link e = Some l \<and> s = rss_signal url tm t (summary e) l \<and>
      keyword_hit (lower t) (lower (or_empty (summary e)))"
proof -
  from assms have mem: "s \<in> set (fst (feed_loop rss tm feeds [] []))"
    by (simp add: parse_marinetraffic_rss_def)
  show ?thesis
  proof (rule feed_loop_invariant [OF _ _ mem])
    fix x :: signal
    assume "x \<in> set []"
    then show "\<exists>url es e t l. url \<in> set feeds \<and> rss url = Inr es \<and> e \<in> set (take 20 es) \<and>
      title e = Some t \<and> link e = Some l \<and> x = rss_signal url tm t (summary e) l \<and>
      keyword_hit (lower t) (lower (or_empty (summary e)))"
      by simp
  next
    fix url es e t l
    assume "url \<in> set feeds" "rss url = Inr es" "e \<in> set (take 20 es)" "title e = Some t"
      "link e = Some l" "keyword_hit (lower t) (lower (or_empty (summary e)))"
    then show "\<exists>url' es' e' t' l'. url' \<in> set feeds \<and> rss url' = Inr es' \<and>
      e' \<in> set (take 20 es') \<and> title e' = Some t' \<and> link e' = Some l' \<and>
      rss_signal url tm t (summary e) l = rss_signal url' tm t' (summary e') l' \<and>
      keyword_hit (lower t') (lower (or_empty (summary e')))"
      by blast
  qed
qed

lemma parse_two_entries:
  "fst (parse_marinetraffic_rss (\<lambda>url. Inr [\<lparr> title = Some ''Port Congestion rising'', summary = None, link = Some ''http://example.org/1'' \<rparr>, \<lparr> title = Some ''Dockers on STRIKE'', summary = Some ''Terminal closed'', link = Some ''http://example.org/2'' \<rparr>]) ''2024-01-02T03:04:05'')
   = [rss_signal ''https://www.marinetraffic.com/ais/index/rss?port=SHANGHAI'' ''2024-01-02T03:04:05'' ''Port Congestion rising'' None ''http://example.org/1'',
      rss_signal ''https://www.marinetraffic.com/ais/index/rss?port=SHANGHAI'' ''2024-01-02T03:04:05'' ''Dockers on STRIKE'' (Some ''Terminal closed'') ''http://example.org/2'',
      rss_signal ''https://www.marinetraffic.com/ais/index/rss?port=LOSANGELES'' ''2024-01-02T03:04:05'' ''Port Congestion rising'' None ''http://example.org/1'',
      rss_signal ''https://www.marinetraffic.com/ais/index/rss?port=LOSANGELES'' ''2024-01-02T03:04:05'' ''Dockers on STRIKE'' (Some ''Terminal closed'') ''http://example.org/2'']"
  by (simp add: parse_marinetraffic_rss_def feeds_def entry0_hit entry1_hit)

text \<open>
  Claim C8.  Every signal the adapter emits was built from one of the first 20 entries of a
  configured feed whose lowered title or lowered summary contains a word of the
  vocabulary; an entry that contains none of them yields no signal.
\<close>

theorem marinetraffic_only_keyword_entries:
  assumes "s \<in> set (fst (parse_marinetraffic_rss rss tm))"
  shows "\<exists>url es e t l. url \<in> set feeds \<and> rss url = Inr es \<and> e \<in> set (take 20 es) \<and>
      title e = Some t \<and> link e = Some l \<and> s = rss_signal url tm t (summary e) l \<and>
      (\<exists>k \<in> set [''congestion'', ''delay'', ''waiting'', ''anchorage'', ''queue'', ''strike'',
                  ''protest'', ''blockade''].
          str_in k (lower t) \<or> str_in k (lower (or_empty (summary e))))"
proof -
  from parse_emits [OF assms] obtain url es e t l where
    "url \<in> set feeds" "rss url = Inr es" "e \<in> set (take 20 es)" "title e = Some t"
    "link e = Some l" "s = rss_signal url tm t (summary e) l"
    "keyword_hit (lower t) (lower (or_empty (summary e)))"
    by blast
  then show ?thesis
    unfolding keyword_hit_def list_ex_iff vocabulary_def by blast
qed

theorem marinetraffic_only_keyword_entries_witness:
  "rss_signal ''https://www.marinetraffic.com/ais/index/rss?port=SHANGHAI'' ''2024-01-02T03:04:05'' ''Dockers on STRIKE'' (Some ''Terminal closed'') ''http://example.org/2''
     \<in> set (fst (parse_marinetraffic_rss (\<lambda>url. Inr [\<lparr> title = Some ''Port Congestion rising'', summary = None, link = Some ''http://example.org/1'' \<rparr>, \<lparr> title = Some ''Dockers on STRIKE'', summary = Some ''Terminal closed'', link = Some ''http://example.org/2'' \<rparr>]) ''2024-01-02T03:04:05'')) \<and>
   (\<exists>url es e t l. url \<in> set feeds \<and> (\<lambda>url. Inr [\<lparr> title = Some ''Port Congestion rising'', summary = None, link = Some ''http://example.org/1'' \<rparr>, \<lparr> title = Some ''Dockers on STRIKE'', summary = Some ''Terminal closed'', link = Some ''http://example.org/2'' \<rparr>]) url = (Inr es :: error + entry list) \<and> e \<in> set (take 20 es) \<and>
      title e = Some t \<and> link e = Some l \<and>
      rss_signal ''https://www.marinetraffic.com/ais/index/rss?port=SHANGHAI'' ''2024-01-02T03:04:05'' ''Dockers on STRIKE'' (Some ''Terminal closed'') ''http://example.org/2''
        = rss_signal url ''2024-01-02T03:04:05'' t (summary e) l \<and>
      (\<exists>k \<in> set [''congestion'', ''delay'', ''waiting'', ''anchorage'', ''queue'', ''strike'',
                  ''protest'', ''blockade''].
          str_in k (lower t) \<or> str_in k (lower (or_empty (summary e)))))"
proof -
  have mem: "rss_signal ''https://www.marinetraffic.com/ais/index/rss?port=SHANGHAI'' ''2024-01-02T03:04:05'' ''Dockers on STRIKE'' (Some ''Terminal closed'') ''http://example.org/2''
     \<in> set (fst (parse_marinetraffic_rss (\<lambda>url. Inr [\<lparr> title = Some ''Port Congestion rising'', summary = None, link = Some ''http://example.org/1'' \<rparr>, \<lparr> title = Some ''Dockers on STRIKE'', summary = Some ''Terminal closed'', link = Some ''http://example.org/2'' \<rparr>]) ''2024-01-02T03:04:05''))"
    by (simp add: parse_two_entries)
  from mem marinetraffic_only_keyword_entries [OF mem] show ?thesis
    by (rule conjI)
qed

text \<open>
  Claim C9.  Every signal the adapter emits is the dictionary built from one of the first
  20 entries of a configured feed, and for the title of that entry its \<open>event_type\<close> is
  "Congestion" exactly when the lowered title contains "congestion" and "Disruption"
  otherwise, with \<open>impact_score\<close> 25 for "Congestion" and 15 for "Disruption".
\<close>

theorem marinetraffic_event_type:
  assumes "s \<in> set (fst (parse_marinetraffic_rss rss tm))"
  shows "\<exists>url es e t l. url \<in> set feeds \<and> rss url = Inr es \<and> e \<in> set (take 20 es) \<and>
      title e = Some t \<and> link e = Some l \<and> s = rss_signal url tm t (summary e) l \<and>
      (event_type s = PyStr ''Congestion'' \<longleftrightarrow> str_in ''congestion'' (lower t)) \<and>
      (event_type s = PyStr ''Disruption'' \<longleftrightarrow> \<not> str_in ''congestion'' (lower t)) \<and>
      (impact_score s = 25 \<longleftrightarrow> event_type s = PyStr ''Congestion'') \<and>
      (impact_score s = 15 \<longleftrightarrow> event_type s = PyStr ''Disruption'')"
proof -
  from parse_emits [OF assms] obtain url es e t l where
    f: "url \<in> set feeds" "rss url = Inr es" "e \<in> set (take 20 es)" "title e = Some t"
      "link e = Some l"
    and s: "s = rss_signal url tm t (summary e) l"
    by blast
  have "(event_type s = PyStr ''Congestion'' \<longleftrightarrow> str_in ''congestion'' (lower t)) \<and>
      (event_type s = PyStr ''Disruption'' \<longleftrightarrow> \<not> str_in ''congestion'' (lower t)) \<and>
      (impact_score s = 25 \<longleftrightarrow> event_type s = PyStr ''Congestion'') \<and>
      (impact_score s = 15 \<longleftrightarrow> event_type s = PyStr ''Disruption'')"
    by (simp add: s rss_signal_def)
  with f s show ?thesis by blast
qed

theorem marinetraffic_event_type_witness:
  "rss_signal ''https://www.marinetraffic.com/ais/index/rss?port=SHANGHAI'' ''2024-01-02T03:04:05'' ''Dockers on STRIKE'' (Some ''Terminal closed'') ''http://example.org/2''
     \<in> set (fst (parse_marinetraffic_rss (\<lambda>url. Inr [\<lparr> title = Some ''Port Congestion rising'', summary = None, link = Some ''http://example.org/1'' \<rparr>, \<lparr> title = Some ''Dockers on STRIKE'', summary = Some ''Terminal closed'', link = Some ''http://example.org/2'' \<rparr>]) ''2024-01-02T03:04:05'')) \<and>
   (\<exists>url es e t l. url \<in> set feeds \<and> (\<lambda>url. Inr [\<lparr> title = Some ''Port Congestion rising'', summary = None, link = Some ''http://example.org/1'' \<rparr>, \<lparr> title = Some ''Dockers on STRIKE'', summary = Some ''Terminal closed'', link = Some ''http://example.org/2'' \<rparr>]) url = (Inr es :: error + entry list) \<and>
      e \<in> set (take 20 es) \<and> title e = Some t \<and> link e = Some l \<and>
      rss_signal ''https://www.marinetraffic.com/ais/index/rss?port=SHANGHAI'' ''2024-01-02T03:04:05'' ''Dockers on STRIKE'' (Some ''Terminal closed'') ''http://example.org/2'' = rss_signal url ''2024-01-02T03:04:05'' t (summary e) l \<and>
      (event_type (rss_signal ''https://www.marinetraffic.com/ais/index/rss?port=SHANGHAI'' ''2024-01-02T03:04:05'' ''Dockers on STRIKE'' (Some ''Terminal closed'') ''http://example.org/2'') = PyStr ''Congestion'' \<longleftrightarrow> str_in ''congestion'' (lower t)) \<and>
      (event_type (rss_signal ''https://www.marinetraffic.com/ais/index/rss?port=SHANGHAI'' ''2024-01-02T03:04:05'' ''Dockers on STRIKE'' (Some ''Terminal closed'') ''http://example.org/2'') = PyStr ''Disruption'' \<longleftrightarrow> \<not> str_in ''congestion'' (lower t)) \<and>
      (impact_score (rss_signal ''https://www.marinetraffic.com/ais/index/rss?port=SHANGHAI'' ''2024-01-02T03:04:05'' ''Dockers on STRIKE'' (Some ''Terminal closed'') ''http://example.org/2'') = 25 \<longleftrightarrow> event_type (rss_signal ''https://www.marinetraffic.com/ais/index/rss?port=SHANGHAI'' ''2024-01-02T03:04:05'' ''Dockers on STRIKE'' (Some ''Terminal closed'') ''http://example.org/2'') = PyStr ''Congestion'') \<and>
      (impact_score (rss_signal ''https://www.marinetraffic.com/ais/index/rss?port=SHANGHAI'' ''2024-01-02T03:04:05'' ''Dockers on STRIKE'' (Some ''Terminal closed'') ''http://example.org/2'') = 15 \<longleftrightarrow> event_type (rss_signal ''https://www.marinetraffic.com/ais/index/rss?port=SHANGHAI'' ''2024-01-02T03:04:05'' ''Dockers on STRIKE'' (Some ''Terminal closed'') ''http://example.org/2'') = PyStr ''Disruption''))"
proof -
  have mem: "rss_signal ''https://www.marinetraffic.com/ais/index/rss?port=SHANGHAI'' ''2024-01-02T03:04:05'' ''Dockers on STRIKE'' (Some ''Terminal closed'') ''http://example.org/2''
     \<in> set (fst (parse_marinetraffic_rss (\<lambda>url. Inr [\<lparr> title = Some ''Port Congestion rising'', summary = None, link = Some ''http://example.org/1'' \<rparr>, \<lparr> title = Some ''Dockers on STRIKE'', summary = Some ''Terminal closed'', link = Some ''http://example.org/2'' \<rparr>]) ''2024-01-02T03:04:05''))"
    by (simp add: parse_two_entries)
  from mem marinetraffic_event_type [OF mem] show ?thesis
    by (rule conjI)
qed

text \<open>
  Claim C10.  A signal that the entries of the Los Angeles feed add to the list has
  \<open>port_name\<close> "Unknown": the lowered address of that feed does not contain
  "los angeles" (nor "shanghai"), so the resolver falls through to its default, while the
  address of the Shanghai feed resolves to "Shanghai".  These two are the configured feeds.
\<close>

theorem losangeles_feed_port_unknown:
  assumes "s \<in> set (snd (entry_loop ''https://www.marinetraffic.com/ais/index/rss?port=LOSANGELES'' tm es signals))" and "s \<notin> set signals"
  shows "port_name s = ''Unknown'' \<and> port_name s \<noteq> ''Los Angeles'' \<and>
     resolve_port ''https://www.marinetraffic.com/ais/index/rss?port=LOSANGELES'' = ''Unknown'' \<and> resolve_port ''https://www.marinetraffic.com/ais/index/rss?port=SHANGHAI'' = ''Shanghai'' \<and> feeds = [''https://www.marinetraffic.com/ais/index/rss?port=SHANGHAI'', ''https://www.marinetraffic.com/ais/index/rss?port=LOSANGELES'']"
proof -
  have "s \<in> set signals \<or> port_name s = ''Unknown''"
  proof (rule entry_loop_invariant [OF _ _ assms(1)])
    fix x assume "x \<in> set signals"
    then show "x \<in> set signals \<or> port_name x = ''Unknown''" by simp
  next
    fix e t l
    show "rss_signal ''https://www.marinetraffic.com/ais/index/rss?port=LOSANGELES'' tm t (summary e) l \<in> set signals \<or>
          port_name (rss_signal ''https://www.marinetraffic.com/ais/index/rss?port=LOSANGELES'' tm t (summary e) l) = ''Unknown''"
      by (simp add: rss_signal_def resolve_port_losangeles)
  qed
  with assms(2) have "port_name s = ''Unknown''" by simp
  then show ?thesis
    by (simp add: resolve_port_losangeles resolve_port_shanghai feeds_def)
qed

theorem losangeles_feed_port_unknown_witness:
  "rss_signal ''https://www.marinetraffic.com/ais/index/rss?port=LOSANGELES'' ''2024-01-02T03:04:05'' ''Port Congestion rising'' None ''http://example.org/1''
     \<in> set (snd (entry_loop ''https://www.marinetraffic.com/ais/index/rss?port=LOSANGELES'' ''2024-01-02T03:04:05'' [\<lparr> title = Some ''Port Congestion rising'', summary = None, link = Some ''http://example.org/1'' \<rparr>] [])) \<and>
   rss_signal ''https://www.marinetraffic.com/ais/index/rss?port=LOSANGELES'' ''2024-01-02T03:04:05'' ''Port Congestion rising'' None ''http://example.org/1'' \<notin> set [] \<and>
   port_name (rss_signal ''https://www.marinetraffic.com/ais/index/rss?port=LOSANGELES'' ''2024-01-02T03:04:05'' ''Port Congestion rising'' None ''http://example.org/1'')
     = ''Unknown''"
proof -
  have mem: "rss_signal ''https://www.marinetraffic.com/ais/index/rss?port=LOSANGELES'' ''2024-01-02T03:04:05'' ''Port Congestion rising'' None ''http://example.org/1''
     \<in> set (snd (entry_loop ''https://www.marinetraffic.com/ais/index/rss?port=LOSANGELES'' ''2024-01-02T03:04:05'' [\<lparr> title = Some ''Port Congestion rising'', summary = None, link = Some ''http://example.org/1'' \<rparr>] []))"
    by (simp add: entry0_hit)
  have new: "rss_signal ''https://www.marinetraffic.com/ais/index/rss?port=LOSANGELES'' ''2024-01-02T03:04:05'' ''Port Congestion rising'' None ''http://example.org/1'' \<notin> set []"
    by simp
  from losangeles_feed_port_unknown [OF mem new] mem show ?thesis
    by simp
qed

end
